theory Spec2Isabelle
  imports Complex_Main "HOL-Library.Char_ord" "HOL-Library.List_Lexorder"
begin

section \<open>Data model\<close>

text \<open>
  Go errors are values that wrap one another (\<^verbatim>\<open>fmt.Errorf("...: %w", err)\<close>).
  \<open>Wrap ctx e\<close> is the error \<open>e\<close> wrapped with the context text \<open>ctx\<close>.
\<close>

datatype error = Error string | Wrap string error

text \<open>
  \<^verbatim>\<open>time.Time\<close> and \<^verbatim>\<open>time.Duration\<close> count nanoseconds; both are integers here.
  \<^verbatim>\<open>float64\<close> fields are only carried from one record to another, never computed with,
  and are reals here.
\<close>

type_synonym duration = int
type_synonym time = int
type_synonym float64 = real

definition Second :: duration where
  "Second = 1000000000"

definition Minute :: duration where
  "Minute = 60 * Second"

text \<open>suppliers/store.go: \<^verbatim>\<open>type Supplier struct\<close>.\<close>

record Supplier =
  s_ID :: string
  s_Name :: string
  s_Phone :: string
  s_City :: string
  s_Categories :: "string list"
  s_Rating :: float64
  s_Active :: bool

text \<open>suppliers/store.go: \<^verbatim>\<open>type QuoteItem struct\<close> and \<^verbatim>\<open>type Quote struct\<close>.\<close>

record QuoteItem =
  qi_Name :: string
  qi_Qty :: float64
  qi_Unit :: string
  qi_Price :: float64

record Quote =
  q_ID :: string
  q_RequestID :: string
  q_SupplierID :: string
  q_Items :: "QuoteItem list"
  q_Response :: string
  q_Price :: float64
  q_Status :: string
  q_CreatedAt :: time
  q_RespondedAt :: "time option"

text \<open>
  A row of the table \<^verbatim>\<open>quotes\<close> of the schema: \<^verbatim>\<open>response\<close>, \<^verbatim>\<open>price\<close> and
  \<^verbatim>\<open>responded_at\<close> are nullable columns. The \<^verbatim>\<open>items\<close> column holds the JSON text of
  the item list; the row keeps the list itself.
\<close>

record quote_row =
  row_id :: string
  row_request_id :: string
  row_supplier_id :: string
  row_items :: "QuoteItem list"
  row_response :: "string option"
  row_price :: "float64 option"
  row_status :: string
  row_created_at :: time
  row_responded_at :: "time option"

text \<open>quote manager: \<^verbatim>\<open>ParsedItem\<close>, \<^verbatim>\<open>QuoteRequest\<close>, \<^verbatim>\<open>QuoteComparison\<close>.\<close>

record ParsedItem =
  pi_Name :: string
  pi_Qty :: float64
  pi_Unit :: string
  pi_Note :: string

record QuoteRequest =
  r_ID :: string
  r_Description :: string
  r_Items :: "ParsedItem list"
  r_Urgent :: bool
  r_Timeout :: duration

record QuoteComparison =
  Recommendation :: string
  BestSupplier :: string
  TotalPrice :: float64
  Table :: string

text \<open>suppliers matcher: \<^verbatim>\<open>type MatchResult struct\<close>.\<close>

record MatchResult =
  m_Supplier :: Supplier
  m_Categories :: "string list"
  m_Reason :: string

text \<open>memory/store.go: \<^verbatim>\<open>type PurchaseRecord struct\<close>.\<close>

record PurchaseRecord =
  p_ID :: string
  p_Description :: string
  p_Items :: "string list"
  p_ChosenSupplier :: string
  p_TotalPrice :: float64
  p_CreatedAt :: time

text \<open>whatsapp/client.go: \<^verbatim>\<open>type SentMessage struct\<close>.\<close>

record SentMessage =
  sm_Phone :: string
  sm_Message :: string
  sm_SentAt :: time

text \<open>comprador/agent.go: \<^verbatim>\<open>type Config struct\<close> and \<^verbatim>\<open>DefaultConfig\<close>.\<close>

record Config =
  City :: string
  QuoteTimeout :: duration
  DryRun :: bool
  WhatsAppDB :: string

definition DefaultConfig :: Config where
  "DefaultConfig = \<lparr>City = ''local'', QuoteTimeout = 30 * Minute, DryRun = True,
     WhatsAppDB = ''data/whatsapp.db''\<rparr>"

section \<open>The chat-completions endpoint\<close>

text \<open>
  What one call of \<^verbatim>\<open>Chat.Completions.New\<close> gives back: an error, or a response with its
  list of choices. Of a choice the code reads \<^verbatim>\<open>FinishReason\<close>, \<^verbatim>\<open>Message.Content\<close> and
  \<^verbatim>\<open>Message.ToolCalls\<close>; of a tool call, the function name and the argument text.
\<close>

record tool_call =
  tc_name :: string
  tc_arguments :: string

record choice =
  finish_reason :: string
  content :: string
  tool_calls :: "tool_call list"

datatype api_result = ApiError error | ApiResponse "choice list"

section \<open>The world outside the functions\<close>

text \<open>
  Everything the code cannot decide itself is a field of the environment: whether the
  \<open>n\<close>-th database statement fails, whether the \<open>n\<close>-th \<^verbatim>\<open>Send\<close> fails, the \<open>n\<close>-th
  identifier \<^verbatim>\<open>uuid.New().String()\<close> returns, how much longer than asked the \<open>n\<close>-th
  \<^verbatim>\<open>time.Sleep\<close> takes, what the inbound handler and other flows do to the table
  \<^verbatim>\<open>quotes\<close> during the \<open>n\<close>-th sleep, what \<^verbatim>\<open>json.Unmarshal\<close> makes of an argument
  text for each of the four target structs, and how \<^verbatim>\<open>%.0f\<close> prints a number.
\<close>

record env =
  db_fault :: "nat \<Rightarrow> error option"
  send_fault :: "nat \<Rightarrow> error option"
  uuid_src :: "nat \<Rightarrow> string"
  oversleep :: "nat \<Rightarrow> nat"
  concurrent :: "nat \<Rightarrow> quote_row list \<Rightarrow> quote_row list"
  unmarshal_items :: "string \<Rightarrow> error + ParsedItem list"
  unmarshal_message :: "string \<Rightarrow> error + string"
  unmarshal_matches :: "string \<Rightarrow> error + (string \<times> string) list"
  unmarshal_comparison :: "string \<Rightarrow> error + QuoteComparison"
  fmt_f0 :: "float64 \<Rightarrow> string"

text \<open>
  The state the functions read and change: the three tables, the number of database
  statements run so far, the answers the completions endpoint has still to give (in call
  order), the messages the sender has delivered and the number of \<^verbatim>\<open>Send\<close> calls made,
  the number of identifiers drawn, the clock, and the number of sleeps taken.
  Printing to standard output is left out.
\<close>

record state =
  suppliers_tbl :: "Supplier list"
  quotes_tbl :: "quote_row list"
  memory_tbl :: "PurchaseRecord list"
  db_ops :: nat
  api_script :: "api_result list"
  sent :: "SentMessage list"
  sends :: nat
  uuid_cnt :: nat
  now :: time
  naps :: nat

section \<open>internal/claude: ChatWithTools\<close>

text \<open>
  The executor is a closure over one variable of the caller (\<^verbatim>\<open>items\<close>, \<^verbatim>\<open>message\<close>,
  \<^verbatim>\<open>matchedIDs\<close>, \<^verbatim>\<open>result\<close>): a function from the tool name, the argument text and the
  variable's value to the tool result and the variable's new value.
  \<open>run_tools\<close> is the inner loop over \<^verbatim>\<open>choice.Message.ToolCalls\<close>; an executor error
  becomes the text of the tool message and is not returned.
\<close>

type_synonym 'r executor = "string \<Rightarrow> string \<Rightarrow> 'r \<Rightarrow> (error + string) \<times> 'r"

fun run_tools :: "'r executor \<Rightarrow> tool_call list \<Rightarrow> 'r \<Rightarrow> 'r" where
  "run_tools executor [] r = r"
| "run_tools executor (tc # tcs) r =
     run_tools executor tcs (snd (executor (tc_name tc) (tc_arguments tc) r))"

text \<open>
  The outer \<^verbatim>\<open>for { ... }\<close> has no bound: it runs for as long as the endpoint answers with
  tool calls. Each round takes the next answer of the script; \<open>None\<close> says that the loop has
  not returned when the script is used up. The result carries the value of the executor's
  variable and the rest of the script.
\<close>

fun ChatWithTools ::
  "'r executor \<Rightarrow> 'r \<Rightarrow> api_result list \<Rightarrow> ((error + string) \<times> 'r \<times> api_result list) option"
where
  "ChatWithTools executor r [] = None"
| "ChatWithTools executor r (ApiError e # rest) = Some (Inl (Wrap ''openrouter api'' e), r, rest)"
| "ChatWithTools executor r (ApiResponse [] # rest) = Some (Inl (Error ''empty response''), r, rest)"
| "ChatWithTools executor r (ApiResponse (c # cs) # rest) =
     (if finish_reason c = ''stop'' \<or> tool_calls c = [] then Some (Inr (content c), r, rest)
      else ChatWithTools executor (run_tools executor (tool_calls c) r) rest)"

section \<open>Quote manager: CompareQuotes\<close>

text \<open>The zero value of \<^verbatim>\<open>QuoteComparison\<close> (\<^verbatim>\<open>var result QuoteComparison\<close>).\<close>

definition zero_comparison :: QuoteComparison where
  "zero_comparison = \<lparr>Recommendation = [], BestSupplier = [], TotalPrice = 0, Table = []\<rparr>"

text \<open>
  The recommendation text of the empty case, as the bytes of its UTF-8 encoding: the
  c-cedilla is \<open>0xC3 0xA7\<close>, the a-tilde is \<open>0xC3 0xA3\<close>.
\<close>

definition no_quotes_text :: string where
  "no_quotes_text = ''Nenhuma cota'' @ [CHR 0xC3, CHR 0xA7, CHR 0xC3, CHR 0xA3] @ ''o recebida.''"

definition compare_executor :: "env \<Rightarrow> QuoteComparison executor" where
  "compare_executor E name input result =
     (case unmarshal_comparison E input of
        Inl e \<Rightarrow> (Inl e, result)
      | Inr r \<Rightarrow> (Inr ''ok'', r))"

definition CompareQuotes ::
  "env \<Rightarrow> QuoteRequest \<Rightarrow> Quote list \<Rightarrow> state \<Rightarrow> ((error + QuoteComparison) \<times> state) option"
where
  "CompareQuotes E req quotes s =
     (if length quotes = 0 then
        Some (Inr (zero_comparison\<lparr>Recommendation := no_quotes_text\<rparr>), s)
      else
        (case ChatWithTools (compare_executor E) zero_comparison (api_script s) of
           None \<Rightarrow> None
         | Some (Inl err, result, rest) \<Rightarrow>
             Some (Inl (Wrap ''compare quotes'' err), s\<lparr>api_script := rest\<rparr>)
         | Some (Inr txt, result, rest) \<Rightarrow>
             Some (Inr result, s\<lparr>api_script := rest\<rparr>)))"

section \<open>Stores\<close>

text \<open>
  Every database statement asks the environment whether it fails, and counts as one
  statement whether it does or not.
\<close>

definition db_step :: "env \<Rightarrow> state \<Rightarrow> error option \<times> state" where
  "db_step E s = (db_fault E (db_ops s), s\<lparr>db_ops := db_ops s + 1\<rparr>)"

text \<open>
  suppliers/store.go, \<^verbatim>\<open>(*Store).List\<close>: the active suppliers, \<^verbatim>\<open>ORDER BY name\<close>.
\<close>

definition List_active :: "env \<Rightarrow> state \<Rightarrow> (error + Supplier list) \<times> state" where
  "List_active E s =
     (case db_step E s of
        (Some err, s1) \<Rightarrow> (Inl err, s1)
      | (None, s1) \<Rightarrow> (Inr (sort_key s_Name (filter s_Active (suppliers_tbl s1))), s1))"

text \<open>
  suppliers/store.go, \<^verbatim>\<open>(*QuoteStore).CreateQuote\<close>: an empty identifier is replaced by a
  fresh one; the row is inserted with status \<^verbatim>\<open>'pending'\<close> and without response, price or
  response time, whatever the argument holds in those fields. The column \<^verbatim>\<open>id\<close> is the
  primary key of the schema: inserting an identifier the table has already is an error.
\<close>

definition pending_row :: "Quote \<Rightarrow> quote_row" where
  "pending_row q =
     \<lparr>row_id = q_ID q, row_request_id = q_RequestID q, row_supplier_id = q_SupplierID q,
      row_items = q_Items q, row_response = None, row_price = None, row_status = ''pending'',
      row_created_at = q_CreatedAt q, row_responded_at = None\<rparr>"

definition CreateQuote :: "env \<Rightarrow> Quote \<Rightarrow> state \<Rightarrow> (error + unit) \<times> state" where
  "CreateQuote E q0 s0 =
     (let (q, s) = (if q_ID q0 = [] then (q0\<lparr>q_ID := uuid_src E (uuid_cnt s0)\<rparr>,
                                         s0\<lparr>uuid_cnt := uuid_cnt s0 + 1\<rparr>)
                    else (q0, s0))
      in case db_step E s of
           (Some err, s1) \<Rightarrow> (Inl err, s1)
         | (None, s1) \<Rightarrow>
             if q_ID q \<in> set (map row_id (quotes_tbl s1))
             then (Inl (Error ''UNIQUE constraint failed: quotes.id''), s1)
             else (Inr (), s1\<lparr>quotes_tbl := quotes_tbl s1 @ [pending_row q]\<rparr>))"

text \<open>
  suppliers/store.go, \<^verbatim>\<open>(*QuoteStore).PendingByRequest\<close>: despite its name, every row of
  the request whatever its status, with \<^verbatim>\<open>COALESCE(response,'')\<close> and
  \<^verbatim>\<open>COALESCE(price,0)\<close>; \<^verbatim>\<open>responded_at\<close> is not selected.
\<close>

definition scan_quote :: "quote_row \<Rightarrow> Quote" where
  "scan_quote r =
     \<lparr>q_ID = row_id r, q_RequestID = row_request_id r, q_SupplierID = row_supplier_id r,
      q_Items = row_items r,
      q_Response = (case row_response r of None \<Rightarrow> [] | Some t \<Rightarrow> t),
      q_Price = (case row_price r of None \<Rightarrow> 0 | Some p \<Rightarrow> p),
      q_Status = row_status r, q_CreatedAt = row_created_at r, q_RespondedAt = None\<rparr>"

definition PendingByRequest :: "env \<Rightarrow> string \<Rightarrow> state \<Rightarrow> (error + Quote list) \<times> state" where
  "PendingByRequest E requestID s =
     (case db_step E s of
        (Some err, s1) \<Rightarrow> (Inl err, s1)
      | (None, s1) \<Rightarrow>
          (Inr (map scan_quote (filter (\<lambda>r. row_request_id r = requestID) (quotes_tbl s1))), s1))"

text \<open>
  memory/store.go, \<^verbatim>\<open>(*Store).Save\<close>. The zero \<^verbatim>\<open>time.Time\<close> is the integer 0.
\<close>

definition Save :: "env \<Rightarrow> PurchaseRecord \<Rightarrow> state \<Rightarrow> (error + unit) \<times> state" where
  "Save E rec0 s0 =
     (let (rec1, s) = (if p_ID rec0 = [] then (rec0\<lparr>p_ID := uuid_src E (uuid_cnt s0)\<rparr>,
                                            s0\<lparr>uuid_cnt := uuid_cnt s0 + 1\<rparr>)
                       else (rec0, s0));
          rec = (if p_CreatedAt rec1 = 0 then rec1\<lparr>p_CreatedAt := now s\<rparr> else rec1)
      in case db_step E s of
           (Some err, s1) \<Rightarrow> (Inl err, s1)
         | (None, s1) \<Rightarrow>
             if p_ID rec \<in> set (map p_ID (memory_tbl s1))
             then (Inl (Error ''UNIQUE constraint failed: purchase_memory.id''), s1)
             else (Inr (), s1\<lparr>memory_tbl := memory_tbl s1 @ [rec]\<rparr>))"

section \<open>The message channel\<close>

text \<open>
  \<^verbatim>\<open>MessageSender.Send\<close>: the environment says whether this call fails; a message that
  was sent is recorded, as \<^verbatim>\<open>MockSender\<close> does in \<^verbatim>\<open>Sent\<close>. \<^verbatim>\<open>MockSender\<close> is the sender
  that never fails.
\<close>

definition Send :: "env \<Rightarrow> string \<Rightarrow> string \<Rightarrow> state \<Rightarrow> (error + unit) \<times> state" where
  "Send E phone message s =
     (case send_fault E (sends s) of
        Some err \<Rightarrow> (Inl err, s\<lparr>sends := sends s + 1\<rparr>)
      | None \<Rightarrow>
          (Inr (), s\<lparr>sends := sends s + 1,
             sent := sent s @ [\<lparr>sm_Phone = phone, sm_Message = message, sm_SentAt = now s\<rparr>]\<rparr>))"

text \<open>
  \<^verbatim>\<open>time.Sleep\<close>: the clock moves on by the duration asked for and by the overshoot the
  environment gives; whatever the inbound handler and other flows do to the table
  \<^verbatim>\<open>quotes\<close> between two polls happens here.
\<close>

definition Sleep :: "env \<Rightarrow> duration \<Rightarrow> state \<Rightarrow> state" where
  "Sleep E d s =
     s\<lparr>now := now s + d + int (oversleep E (naps s)),
       quotes_tbl := concurrent E (naps s) (quotes_tbl s),
       naps := naps s + 1\<rparr>"

section \<open>Quote manager: ParseRequest, composeMessage, SendQuotes\<close>

definition items_executor :: "env \<Rightarrow> (ParsedItem list) executor" where
  "items_executor E name input items =
     (case unmarshal_items E input of
        Inl e \<Rightarrow> (Inl e, items)
      | Inr its \<Rightarrow> (Inr ''ok'', its))"

definition ParseRequest ::
  "env \<Rightarrow> string \<Rightarrow> state \<Rightarrow> ((error + QuoteRequest) \<times> state) option"
where
  "ParseRequest E description s =
     (case ChatWithTools (items_executor E) [] (api_script s) of
        None \<Rightarrow> None
      | Some (Inl err, items, rest) \<Rightarrow>
          Some (Inl (Wrap ''parse request'' err), s\<lparr>api_script := rest\<rparr>)
      | Some (Inr txt, items, rest) \<Rightarrow>
          Some (Inr \<lparr>r_ID = uuid_src E (uuid_cnt s), r_Description = description,
                     r_Items = items, r_Urgent = False, r_Timeout = 0\<rparr>,
                s\<lparr>api_script := rest, uuid_cnt := uuid_cnt s + 1\<rparr>))"

definition message_executor :: "env \<Rightarrow> string executor" where
  "message_executor E name input message =
     (case unmarshal_message E input of
        Inl e \<Rightarrow> (Inl e, message)
      | Inr m \<Rightarrow> (Inr ''ok'', m))"

text \<open>\<^verbatim>\<open>strings.Join\<close>.\<close>

fun Join :: "string list \<Rightarrow> string \<Rightarrow> string" where
  "Join [] sep = []"
| "Join [x] sep = x"
| "Join (x # y # ys) sep = x @ sep @ Join (y # ys) sep"

text \<open>
  The fallback text of \<^verbatim>\<open>composeMessage\<close>, used when the tool gave no message. The
  a-acute of the greeting and of the closing line is \<open>0xC3 0xA1\<close>, the c-cedilla
  \<open>0xC3 0xA7\<close>, and \<open>0x0A\<close> is the newline.
\<close>

definition fallback_message :: "env \<Rightarrow> QuoteRequest \<Rightarrow> Supplier \<Rightarrow> string" where
  "fallback_message E req sp =
     Join ([''Ol'' @ [CHR 0xC3, CHR 0xA1] @ '' '' @ s_Name sp
              @ ''! Preciso de uma cota'' @ [CHR 0xC3, CHR 0xA7, CHR 0xC3, CHR 0xA3]
              @ ''o para os seguintes itens:'']
           @ map (\<lambda>it. ''- '' @ pi_Name it @ '': '' @ fmt_f0 E (pi_Qty it) @ '' '' @ pi_Unit it)
               (r_Items req)
           @ [[CHR 0x0A] @ ''Por favor, informe o pre'' @ [CHR 0xC3, CHR 0xA7]
              @ ''o unit'' @ [CHR 0xC3, CHR 0xA1] @ ''rio e prazo de entrega. Obrigado!''])
       [CHR 0x0A]"

definition composeMessage ::
  "env \<Rightarrow> QuoteRequest \<Rightarrow> Supplier \<Rightarrow> state \<Rightarrow> ((error + string) \<times> state) option"
where
  "composeMessage E req sp s =
     (case ChatWithTools (message_executor E) [] (api_script s) of
        None \<Rightarrow> None
      | Some (Inl err, message, rest) \<Rightarrow> Some (Inl err, s\<lparr>api_script := rest\<rparr>)
      | Some (Inr txt, message, rest) \<Rightarrow>
          Some (Inr (if message = [] then fallback_message E req sp else message),
                s\<lparr>api_script := rest\<rparr>))"

text \<open>
  The quote \<^verbatim>\<open>SendQuotes\<close> hands to \<^verbatim>\<open>CreateQuote\<close> for one supplier: a fresh identifier,
  the request, the supplier, the items of the request without their notes, the time;
  every other field has its zero value.
\<close>

definition new_quote :: "env \<Rightarrow> QuoteRequest \<Rightarrow> Supplier \<Rightarrow> state \<Rightarrow> Quote" where
  "new_quote E req sp s =
     \<lparr>q_ID = uuid_src E (uuid_cnt s), q_RequestID = r_ID req, q_SupplierID = s_ID sp,
      q_Items = map (\<lambda>it. \<lparr>qi_Name = pi_Name it, qi_Qty = pi_Qty it, qi_Unit = pi_Unit it,
                            qi_Price = 0\<rparr>) (r_Items req),
      q_Response = [], q_Price = 0, q_Status = [], q_CreatedAt = now s, q_RespondedAt = None\<rparr>"

fun SendQuotes ::
  "env \<Rightarrow> QuoteRequest \<Rightarrow> Supplier list \<Rightarrow> state \<Rightarrow> ((error + unit) \<times> state) option"
where
  "SendQuotes E req [] s = Some (Inr (), s)"
| "SendQuotes E req (sp # sups) s =
     (case composeMessage E req sp s of
        None \<Rightarrow> None
      | Some (Inl err, s1) \<Rightarrow> Some (Inl (Wrap (''compose message for '' @ s_Name sp) err), s1)
      | Some (Inr msg, s1) \<Rightarrow>
          (case Send E (s_Phone sp) msg s1 of
             (Inl err, s2) \<Rightarrow> Some (Inl (Wrap (''send to '' @ s_Name sp) err), s2)
           | (Inr u, s2) \<Rightarrow>
               (case CreateQuote E (new_quote E req sp s2) (s2\<lparr>uuid_cnt := uuid_cnt s2 + 1\<rparr>) of
                  (Inl err, s3) \<Rightarrow> Some (Inl (Wrap ''save quote'' err), s3)
                | (Inr u', s3) \<Rightarrow> SendQuotes E req sups s3)))"

section \<open>Supplier matcher: Match\<close>

definition match_executor :: "env \<Rightarrow> ((string \<times> string) list) executor" where
  "match_executor E name input matchedIDs =
     (if name \<noteq> ''match_suppliers'' then (Inl (Error (''unknown tool: '' @ name)), matchedIDs)
      else case unmarshal_matches E input of
             Inl e \<Rightarrow> (Inl e, matchedIDs)
           | Inr ms \<Rightarrow> (Inr ''ok'', ms))"

text \<open>
  \<^verbatim>\<open>supIndex\<close>: the suppliers by identifier, a later one replacing an earlier one of the
  same identifier.
\<close>

definition supIndex :: "Supplier list \<Rightarrow> (string \<rightharpoonup> Supplier)" where
  "supIndex all = foldl (\<lambda>m s. m(s_ID s \<mapsto> s)) Map.empty all"

text \<open>
  The last loop of \<^verbatim>\<open>Match\<close>, over the pairs (supplier identifier, reason) the tool
  gave: \<^verbatim>\<open>seen\<close> is a \<^verbatim>\<open>map[string]bool\<close>, false where nothing was stored.
\<close>

fun match_loop ::
  "(string \<rightharpoonup> Supplier) \<Rightarrow> (string \<times> string) list \<Rightarrow> (string \<Rightarrow> bool) \<Rightarrow> MatchResult list
     \<Rightarrow> MatchResult list"
where
  "match_loop idx [] seen results = results"
| "match_loop idx ((sid, reason) # ms) seen results =
     (if seen sid then match_loop idx ms seen results
      else case idx sid of
             None \<Rightarrow> match_loop idx ms seen results
           | Some sp \<Rightarrow>
               match_loop idx ms (seen(sid := True))
                 (results @ [\<lparr>m_Supplier = sp, m_Categories = [], m_Reason = reason\<rparr>]))"

definition Match ::
  "env \<Rightarrow> string list \<Rightarrow> string \<Rightarrow> state \<Rightarrow> ((error + MatchResult list) \<times> state) option"
where
  "Match E items city s =
     (case List_active E s of
        (Inl err, s1) \<Rightarrow> Some (Inl (Wrap ''list suppliers'' err), s1)
      | (Inr all, s1) \<Rightarrow>
          if length all = 0 then Some (Inr [], s1)
          else
            (case ChatWithTools (match_executor E) [] (api_script s1) of
               None \<Rightarrow> None
             | Some (Inl err, matchedIDs, rest) \<Rightarrow>
                 Some (Inl (Wrap ''claude match'' err), s1\<lparr>api_script := rest\<rparr>)
             | Some (Inr txt, matchedIDs, rest) \<Rightarrow>
                 Some (Inr (match_loop (supIndex all) matchedIDs (\<lambda>_. False) []),
                       s1\<lparr>api_script := rest\<rparr>)))"

section \<open>Agent: handleIncoming\<close>

text \<open>
  Modelled from the spec: \<^verbatim>\<open>(*Store).ByPhone\<close>, which \<^verbatim>\<open>handleIncoming\<close> calls and the
  sources do not hold. The spec: "resolve the sender address to a Counterparty via the
  directory". It is one query on the table \<^verbatim>\<open>suppliers\<close> for a row with that contact
  address; no row gives \<^verbatim>\<open>nil\<close>, as \<^verbatim>\<open>(*Store).Get\<close> does.
\<close>

definition ByPhone :: "env \<Rightarrow> string \<Rightarrow> state \<Rightarrow> (error + Supplier option) \<times> state" where
  "ByPhone E phone s =
     (case db_step E s of
        (Some err, s1) \<Rightarrow> (Inl err, s1)
      | (None, s1) \<Rightarrow> (Inr (find (\<lambda>sp. s_Phone sp = phone) (suppliers_tbl s1)), s1))"

text \<open>
  Modelled from the spec: \<^verbatim>\<open>(*QuoteStore).UpdateBySupplier\<close>, which \<^verbatim>\<open>handleIncoming\<close>
  calls and the sources do not hold. The spec: "update the most relevant pending Quote
  Unit for that counterparty to status received and store the reply text", with the
  policy "update the single most recently created pending unit for that counterparty".
  Rows are appended when they are created, so the most recently created pending row of a
  supplier is the last such row of the table: \<open>mark_latest P f rows\<close> applies \<open>f\<close> to the
  last row that satisfies \<open>P\<close> and to no other. The response time is set as
  \<^verbatim>\<open>UpdateQuoteResponse\<close> sets it; the price, which the call does not carry, is left as
  it is. The update is one statement; with no pending unit of the supplier it changes no
  row and is no error.
\<close>

fun mark_latest :: "('a \<Rightarrow> bool) \<Rightarrow> ('a \<Rightarrow> 'a) \<Rightarrow> 'a list \<Rightarrow> 'a list" where
  "mark_latest P f [] = []"
| "mark_latest P f (r # rs) =
     (if list_ex P rs then r # mark_latest P f rs
      else if P r then f r # rs
      else r # rs)"

definition is_pending_of :: "string \<Rightarrow> quote_row \<Rightarrow> bool" where
  "is_pending_of supplierID r \<longleftrightarrow> row_supplier_id r = supplierID \<and> row_status r = ''pending''"

definition record_response :: "string \<Rightarrow> time \<Rightarrow> quote_row \<Rightarrow> quote_row" where
  "record_response response t r =
     r\<lparr>row_response := Some response, row_status := ''received'', row_responded_at := Some t\<rparr>"

definition UpdateBySupplier ::
  "env \<Rightarrow> string \<Rightarrow> string \<Rightarrow> state \<Rightarrow> (error + unit) \<times> state"
where
  "UpdateBySupplier E supplierID response s =
     (case db_step E s of
        (Some err, s1) \<Rightarrow> (Inl err, s1)
      | (None, s1) \<Rightarrow>
          (Inr (), s1\<lparr>quotes_tbl :=
             mark_latest (is_pending_of supplierID) (record_response response (now s1))
               (quotes_tbl s1)\<rparr>))"

text \<open>
  comprador/agent.go, \<^verbatim>\<open>handleIncoming\<close>: it returns nothing; an error of the update is
  printed and dropped.
\<close>

definition handleIncoming :: "env \<Rightarrow> string \<Rightarrow> string \<Rightarrow> state \<Rightarrow> state" where
  "handleIncoming E from msg s =
     (case ByPhone E from s of
        (Inl err, s1) \<Rightarrow> s1
      | (Inr None, s1) \<Rightarrow> s1
      | (Inr (Some sp), s1) \<Rightarrow> snd (UpdateBySupplier E (s_ID sp) msg s1))"

section \<open>Agent: Quote\<close>

text \<open>The first statement of \<^verbatim>\<open>Quote\<close>: the timeout of the wait.\<close>

definition quote_timeout :: "Config \<Rightarrow> bool \<Rightarrow> duration" where
  "quote_timeout cfg urgent = (if urgent then 5 * Minute else QuoteTimeout cfg)"

definition count_received :: "Quote list \<Rightarrow> nat" where
  "count_received quotes = length (filter (\<lambda>q. q_Status q = ''received'') quotes)"

text \<open>
  Step 4 of \<^verbatim>\<open>Quote\<close>, the loop \<^verbatim>\<open>for time.Now().Before(deadline) { ... }\<close>: read the
  quotes of the request, return the error of a failed read, leave the loop when the number
  of received quotes is the number of suppliers, sleep ten seconds otherwise. The result
  says how the loop was left: \<open>Inl err\<close> by \<^verbatim>\<open>return err\<close>, \<open>Inr True\<close> by \<^verbatim>\<open>break\<close>,
  \<open>Inr False\<close> because the loop condition was false.
\<close>

function wait_loop ::
  "env \<Rightarrow> string \<Rightarrow> nat \<Rightarrow> time \<Rightarrow> state \<Rightarrow> (error + bool) \<times> state"
where
  "wait_loop E requestID expected deadline s =
     (if now s < deadline then
        (case PendingByRequest E requestID s of
           (Inl err, s1) \<Rightarrow> (Inl err, s1)
         | (Inr quotes, s1) \<Rightarrow>
             if count_received quotes = expected then (Inr True, s1)
             else wait_loop E requestID expected deadline (Sleep E (10 * Second) s1))
      else (Inr False, s))"
  by pat_completeness auto
termination
  apply (relation "measure (\<lambda>(E, requestID, expected, deadline, s). nat (deadline - now s))")
   apply simp
  apply (auto simp: PendingByRequest_def db_step_def Sleep_def Second_def split: option.splits)
  done

text \<open>
  Step 5 up to the filter: the quotes are read once more, an error of that read being
  dropped (\<^verbatim>\<open>quotes, _ := ...\<close>, which leaves \<^verbatim>\<open>quotes\<close> nil), and the received ones
  are kept.
\<close>

definition final_snapshot :: "env \<Rightarrow> string \<Rightarrow> state \<Rightarrow> (error + Quote list) \<times> state" where
  "final_snapshot E requestID s =
     (case PendingByRequest E requestID s of
        (res, s1) \<Rightarrow>
          (Inr (filter (\<lambda>q. q_Status q = ''received'')
                  (case res of Inl err \<Rightarrow> [] | Inr quotes \<Rightarrow> quotes)), s1))"

text \<open>
  Steps 4 and 5 up to the filter: the deadline is taken from the clock, the loop runs, and
  unless it returned an error the final snapshot is taken.
\<close>

definition await_responses ::
  "env \<Rightarrow> string \<Rightarrow> nat \<Rightarrow> duration \<Rightarrow> state \<Rightarrow> (error + Quote list) \<times> state"
where
  "await_responses E requestID expected timeout s =
     (case wait_loop E requestID expected (now s + timeout) s of
        (Inl err, s1) \<Rightarrow> (Inl err, s1)
      | (Inr left, s1) \<Rightarrow> final_snapshot E requestID s1)"

text \<open>
  comprador/agent.go, \<^verbatim>\<open>Quote\<close>. The c-cedilla and o-tilde of the error contexts are
  \<open>0xC3 0xA7\<close> and \<open>0xC3 0xB5\<close>. The error of \<^verbatim>\<open>memStore.Save\<close> is dropped.
\<close>

definition Quote ::
  "env \<Rightarrow> Config \<Rightarrow> string \<Rightarrow> bool \<Rightarrow> state \<Rightarrow> ((error + unit) \<times> state) option"
where
  "Quote E cfg description urgent s =
     (let timeout = quote_timeout cfg urgent in
      case ParseRequest E description s of
        None \<Rightarrow> None
      | Some (Inl err, s1) \<Rightarrow> Some (Inl (Wrap ''analisar pedido'' err), s1)
      | Some (Inr req0, s1) \<Rightarrow>
          (let req = req0\<lparr>r_Urgent := urgent, r_Timeout := timeout\<rparr>;
               itemNames = map pi_Name (r_Items req)
           in case Match E itemNames (City cfg) s1 of
                None \<Rightarrow> None
              | Some (Inl err, s2) \<Rightarrow> Some (Inl (Wrap ''buscar fornecedores'' err), s2)
              | Some (Inr sups, s2) \<Rightarrow>
                  if length sups = 0 then Some (Inr (), s2)
                  else
                    (case SendQuotes E req (map m_Supplier sups) s2 of
                       None \<Rightarrow> None
                     | Some (Inl err, s3) \<Rightarrow>
                         Some (Inl (Wrap (''enviar cota'' @ [CHR 0xC3, CHR 0xA7, CHR 0xC3, CHR 0xB5]
                                            @ ''es'') err), s3)
                     | Some (Inr u, s3) \<Rightarrow>
                         if DryRun cfg then Some (Inr (), s3)
                         else
                           (case await_responses E (r_ID req) (length sups) timeout s3 of
                              (Inl err, s4) \<Rightarrow> Some (Inl err, s4)
                            | (Inr received, s4) \<Rightarrow>
                                if length received = 0 then Some (Inr (), s4)
                                else
                                  (case CompareQuotes E req received s4 of
                                     None \<Rightarrow> None
                                   | Some (Inl err, s5) \<Rightarrow>
                                       Some (Inl (Wrap (''comparar cota''
                                                 @ [CHR 0xC3, CHR 0xA7, CHR 0xC3, CHR 0xB5]
                                                 @ ''es'') err), s5)
                                   | Some (Inr comparison, s5) \<Rightarrow>
                                       Some (Inr (),
                                         snd (Save E
                                           \<lparr>p_ID = [], p_Description = description,
                                            p_Items = itemNames,
                                            p_ChosenSupplier = BestSupplier comparison,
                                            p_TotalPrice = TotalPrice comparison,
                                            p_CreatedAt = 0\<rparr> s5)))))))"


section \<open>What the spec says, as functions\<close>

text \<open>
  "Deduplicate by identifier in order of first occurrence": keep the first element, drop
  every later occurrence of it, go on with the rest.
\<close>

fun first_seen :: "'a list \<Rightarrow> 'a list" where
  "first_seen [] = []"
| "first_seen (x # xs) = x # first_seen (removeAll x xs)"


text \<open>
  "Repeatedly re-read the store's Quote Units for that request at a fixed polling
  interval": what one round of the wait does to the state, written out field by field. The
  read is one database statement; the sleep moves the clock on by ten seconds and the
  overshoot, and the inbound handler and other flows change the table of quotes meanwhile.
  \<open>poll_at E k s\<close> is the state after \<open>k\<close> rounds.
\<close>

definition poll_round :: "env \<Rightarrow> state \<Rightarrow> state" where
  "poll_round E s =
     s\<lparr>db_ops := db_ops s + 1,
       now := now s + 10 * Second + int (oversleep E (naps s)),
       quotes_tbl := concurrent E (naps s) (quotes_tbl s),
       naps := naps s + 1\<rparr>"

fun poll_at :: "env \<Rightarrow> nat \<Rightarrow> state \<Rightarrow> state" where
  "poll_at E 0 s = s"
| "poll_at E (Suc k) s = poll_at E k (poll_round E s)"




text \<open>
  Answers of the endpoint, as \<open>ChatWithTools\<close> reads them: one that makes it go on (a
  first choice with tool calls and a finish reason other than \<^verbatim>\<open>stop\<close>), one that makes it
  return the content, and the tool calls of an answer.
\<close>

definition keeps_calling :: "api_result \<Rightarrow> bool" where
  "keeps_calling a =
     (case a of
        ApiError e \<Rightarrow> False
      | ApiResponse [] \<Rightarrow> False
      | ApiResponse (c # cs) \<Rightarrow> \<not> (finish_reason c = ''stop'' \<or> tool_calls c = []))"

definition ends_chat :: "api_result \<Rightarrow> bool" where
  "ends_chat a =
     (case a of
        ApiError e \<Rightarrow> False
      | ApiResponse [] \<Rightarrow> False
      | ApiResponse (c # cs) \<Rightarrow> finish_reason c = ''stop'' \<or> tool_calls c = [])"

definition calls_of :: "api_result \<Rightarrow> tool_call list" where
  "calls_of a =
     (case a of
        ApiError e \<Rightarrow> []
      | ApiResponse [] \<Rightarrow> []
      | ApiResponse (c # cs) \<Rightarrow> tool_calls c)"

section \<open>Example data\<close>

text \<open>
  An environment in which nothing fails and no sleep overshoots. Its decoders are toys: an
  item list of one item named by the text, the text itself as message, one match per
  character of the text, and a comparison that recommends the text, the empty text being
  malformed.
\<close>

definition calm :: env where
  "calm = \<lparr>db_fault = (\<lambda>n. None), send_fault = (\<lambda>n. None),
     uuid_src = (\<lambda>n. ''u'' @ replicate n (CHR ''i'')),
     oversleep = (\<lambda>n. 0), concurrent = (\<lambda>n rows. rows),
     unmarshal_items = (\<lambda>t. Inr [\<lparr>pi_Name = t, pi_Qty = 1, pi_Unit = ''un'', pi_Note = []\<rparr>]),
     unmarshal_message = (\<lambda>t. Inr t),
     unmarshal_matches = (\<lambda>t. Inr (map (\<lambda>c. ([c], ''fits'')) t)),
     unmarshal_comparison = (\<lambda>t. if t = [] then Inl (Error ''unexpected end of JSON input'')
        else Inr \<lparr>Recommendation = t, BestSupplier = ''Acme'', TotalPrice = 0, Table = []\<rparr>),
     fmt_f0 = (\<lambda>x. ''1'')\<rparr>"

definition supplier_a :: Supplier where
  "supplier_a = \<lparr>s_ID = ''a'', s_Name = ''Acme'', s_Phone = ''5567999990001'', s_City = ''local'',
     s_Categories = [''cimento''], s_Rating = 5, s_Active = True\<rparr>"

definition supplier_b :: Supplier where
  "supplier_b = \<lparr>s_ID = ''b'', s_Name = ''Bolt'', s_Phone = ''5567999990002'', s_City = ''local'',
     s_Categories = [''cimento''], s_Rating = 4, s_Active = True\<rparr>"

definition supplier_c :: Supplier where
  "supplier_c = \<lparr>s_ID = ''c'', s_Name = ''Cal'', s_Phone = ''5567999990003'', s_City = ''local'',
     s_Categories = [''areia''], s_Rating = 3, s_Active = True\<rparr>"

text \<open>The calm environment, except that the second \<^verbatim>\<open>Send\<close> fails.\<close>

definition flaky :: env where
  "flaky = calm\<lparr>send_fault := (\<lambda>n. if n = 1 then Some (Error ''offline'') else None)\<rparr>"

text \<open>An answer of the endpoint with one tool call, and the answer that ends a conversation.\<close>

definition says :: "string \<Rightarrow> string \<Rightarrow> api_result" where
  "says name arguments = ApiResponse [\<lparr>finish_reason = ''tool_calls'', content = [],
     tool_calls = [\<lparr>tc_name = name, tc_arguments = arguments\<rparr>]\<rparr>]"

definition stops :: api_result where
  "stops = ApiResponse [\<lparr>finish_reason = ''stop'', content = ''done'', tool_calls = []\<rparr>]"

text \<open>A fresh database with the three suppliers, and the endpoint's answers to come.\<close>

definition shop :: "api_result list \<Rightarrow> state" where
  "shop script = \<lparr>suppliers_tbl = [supplier_a, supplier_b, supplier_c], quotes_tbl = [], memory_tbl = [],
     db_ops = 0, api_script = script, sent = [], sends = 0, uuid_cnt = 0, now = 0, naps = 0\<rparr>"

text \<open>
  The answers of a whole dry run: the items are parsed, suppliers a and b are matched, and
  no message is composed for either, so that the fallback text is sent.
\<close>

definition dry_script :: "api_result list" where
  "dry_script = [says ''parse_purchase_request'' ''cimento'', stops,
                 says ''match_suppliers'' ''ab'', stops, stops, stops]"








text \<open>A received quote of supplier a.\<close>

definition quote_a :: Quote where
  "quote_a = \<lparr>q_ID = ''u'', q_RequestID = ''r1'', q_SupplierID = ''a'', q_Items = [],
     q_Response = ''R$ 10'', q_Price = 0, q_Status = ''received'', q_CreatedAt = 0,
     q_RespondedAt = None\<rparr>"

definition cement :: QuoteRequest where
  "cement = \<lparr>r_ID = ''r1'', r_Description = ''cimento'', r_Items = [], r_Urgent = False,
     r_Timeout = 30 * Minute\<rparr>"

section \<open>Theorems\<close>

subsection \<open>Decision step on no quotes\<close>

text \<open>
  C7. For every request, every environment and every state, \<open>CompareQuotes\<close> on an empty
  list of received quotes returns, without error, the fixed record whose recommendation is
  the "no quotes received" text and whose other fields are zero; the state is returned as
  it was, so no answer of the completions endpoint has been taken: the ranking capability
  was not called.
\<close>

theorem CompareQuotes_empty:
  "CompareQuotes E req [] s =
     Some (Inr \<lparr>Recommendation = no_quotes_text, BestSupplier = [], TotalPrice = 0, Table = []\<rparr>, s)"
  by (simp add: CompareQuotes_def zero_comparison_def)

theorem CompareQuotes_empty_witness:
  "CompareQuotes calm cement [] (shop [ApiError (Error ''unreachable'')]) =
   Some (Inr \<lparr>Recommendation = no_quotes_text, BestSupplier = [], TotalPrice = 0, Table = []\<rparr>,
     shop [ApiError (Error ''unreachable'')])"
  by (rule CompareQuotes_empty)

subsection \<open>Matching\<close>

lemma supIndex_fold:
  "foldl (\<lambda>m s. m(s_ID s \<mapsto> s)) m0 all i = Some sp \<Longrightarrow>
     (sp \<in> set all \<and> s_ID sp = i) \<or> m0 i = Some sp"
  by (induction all rule: rev_induct) (auto split: if_splits)

lemma supIndex_dom_fold:
  "(\<exists>sp. foldl (\<lambda>m s. m(s_ID s \<mapsto> s)) m0 all i = Some sp) \<longleftrightarrow>
     (\<exists>sp. m0 i = Some sp) \<or> i \<in> s_ID ` set all"
  by (induction all rule: rev_induct) auto

lemma supIndex_Some: "supIndex all i = Some sp \<Longrightarrow> sp \<in> set all \<and> s_ID sp = i"
  using supIndex_fold [of Map.empty all i sp] by (simp add: supIndex_def)

lemma supIndex_dom: "(\<exists>sp. supIndex all i = Some sp) \<longleftrightarrow> i \<in> s_ID ` set all"
  using supIndex_dom_fold [of Map.empty all i] by (simp add: supIndex_def)

lemma match_loop_ids:
  assumes "\<And>i sp. idx i = Some sp \<Longrightarrow> s_ID sp = i"
  shows "map (\<lambda>m. s_ID (m_Supplier m)) (match_loop idx ms seen results) =
         map (\<lambda>m. s_ID (m_Supplier m)) results
           @ first_seen (filter (\<lambda>i. \<not> seen i \<and> (\<exists>sp. idx i = Some sp)) (map fst ms))"
proof (induction ms arbitrary: seen results)
  case Nil
  show ?case by simp
next
  case (Cons m ms)
  obtain sid reason where m: "m = (sid, reason)" by (cases m)
  show ?case
  proof (cases "seen sid")
    case True
    then show ?thesis using Cons.IH [of seen results] by (simp add: m)
  next
    case unseen: False
    show ?thesis
    proof (cases "idx sid")
      case None
      then show ?thesis using unseen Cons.IH [of seen results] by (simp add: m)
    next
      case (Some sp)
      have eq: "removeAll sid (filter (\<lambda>i. \<not> seen i \<and> (\<exists>sp. idx i = Some sp)) (map fst ms)) =
                filter (\<lambda>i. \<not> (seen(sid := True)) i \<and> (\<exists>sp. idx i = Some sp)) (map fst ms)"
        by (induction ms) auto
      from Some have "s_ID sp = sid" by (rule assms)
      then show ?thesis
        using unseen Some Cons.IH [of "seen(sid := True)"
            "results @ [\<lparr>m_Supplier = sp, m_Categories = [], m_Reason = reason\<rparr>]"]
        by (simp add: m eq del: fun_upd_apply)
    qed
  qed
qed

lemma List_active_shop:
  "List_active calm (shop script) =
     (Inr [supplier_a, supplier_b, supplier_c], shop script\<lparr>db_ops := 1\<rparr>)"
  by (simp add: List_active_def db_step_def calm_def shop_def supplier_a_def supplier_b_def
      supplier_c_def)

text \<open>
  C6. Let \<open>all\<close> be the directory as \<open>Match\<close> reads it (the active suppliers) and
  \<open>matchedIDs\<close> the pairs of identifier and reason the matching tool gave. Then \<open>Match\<close>
  returns, without error, results whose supplier identifiers are exactly: the identifiers
  the tool gave, without those absent from \<open>all\<close>, each kept at its first occurrence only,
  in the order of first occurrence. The witness is the spec's example: the tool gives
  a, x, a, b, where x is not in the directory, and the result is a, b.
\<close>

theorem Match_first_seen:
  assumes "List_active E s = (Inr all, s1)" and "all \<noteq> []"
    and "ChatWithTools (match_executor E) [] (api_script s1) = Some (Inr txt, matchedIDs, rest)"
  shows "\<exists>results. Match E items city s = Some (Inr results, s1\<lparr>api_script := rest\<rparr>) \<and>
           map (\<lambda>m. s_ID (m_Supplier m)) results =
             first_seen (filter (\<lambda>i. i \<in> s_ID ` set all) (map fst matchedIDs))"
  using assms
    match_loop_ids [of "supIndex all" matchedIDs "\<lambda>_. False" "[]", OF supIndex_Some [THEN conjunct2]]
  by (simp add: Match_def supIndex_dom)

theorem Match_first_seen_witness:
  "\<exists>results. Match calm [''cimento''] ''local'' (shop [says ''match_suppliers'' ''axab'', stops]) =
       Some (Inr results,
             shop [says ''match_suppliers'' ''axab'', stops]\<lparr>db_ops := 1, api_script := []\<rparr>) \<and>
     map (\<lambda>m. s_ID (m_Supplier m)) results = [''a'', ''b'']"
  using Match_first_seen [of calm "shop [says ''match_suppliers'' ''axab'', stops]"
      "[supplier_a, supplier_b, supplier_c]"
      "shop [says ''match_suppliers'' ''axab'', stops]\<lparr>db_ops := 1\<rparr>"
      "''done''" "[(''a'', ''fits''), (''x'', ''fits''), (''a'', ''fits''), (''b'', ''fits'')]" "[]"
      "[''cimento'']" "''local''"]
  by (simp add: List_active_shop)
     (simp add: shop_def says_def stops_def match_executor_def calm_def supplier_a_def
        supplier_b_def supplier_c_def)

subsection \<open>Inbound messages\<close>

text \<open>
  C5. If no supplier of the directory has the sender's address, \<open>handleIncoming\<close> leaves
  the table of quotes as it was; all it did is the one lookup, so the state differs only
  in the count of database statements. \<open>handleIncoming\<close> has no error result: it returns
  nothing in the source and is a total function here.
\<close>

theorem handleIncoming_unknown_sender:
  assumes "from \<notin> s_Phone ` set (suppliers_tbl s)"
  shows "handleIncoming E from msg s = s\<lparr>db_ops := db_ops s + 1\<rparr> \<and>
         quotes_tbl (handleIncoming E from msg s) = quotes_tbl s"
proof -
  have "find (\<lambda>sp. s_Phone sp = from) (suppliers_tbl s) = None"
    using assms by (auto simp: find_None_iff)
  then show ?thesis
    by (simp add: handleIncoming_def ByPhone_def db_step_def split: option.splits)
qed

theorem handleIncoming_unknown_sender_witness:
  "handleIncoming calm ''5511000000000'' ''oi'' (shop []) = shop []\<lparr>db_ops := 1\<rparr> \<and>
   quotes_tbl (handleIncoming calm ''5511000000000'' ''oi'' (shop [])) = []"
  using handleIncoming_unknown_sender [of "''5511000000000''" "shop []" calm "''oi''"]
  by (simp add: shop_def supplier_a_def supplier_b_def supplier_c_def)

subsection \<open>Dispatch\<close>

lemma composeMessage_frame:
  "composeMessage E req sp s = Some (res, s') \<Longrightarrow> \<exists>rest. s' = s\<lparr>api_script := rest\<rparr>"
  by (auto simp: composeMessage_def split: option.splits sum.splits prod.splits)

lemma Send_ok:
  "Send E phone message s = (Inr u, s') \<Longrightarrow>
     s' = s\<lparr>sends := sends s + 1,
            sent := sent s @ [\<lparr>sm_Phone = phone, sm_Message = message, sm_SentAt = now s\<rparr>]\<rparr>"
  by (auto simp: Send_def split: option.splits)

lemma Send_fails:
  "Send E phone message s = (Inl err, s') \<Longrightarrow> s' = s\<lparr>sends := sends s + 1\<rparr>"
  by (auto simp: Send_def split: option.splits)

lemma CreateQuote_ok:
  "CreateQuote E q s = (Inr u, s') \<Longrightarrow>
     \<exists>row. quotes_tbl s' = quotes_tbl s @ [row] \<and>
       row_request_id row = q_RequestID q \<and> row_supplier_id row = q_SupplierID q \<and>
       row_status row = ''pending'' \<and>
       memory_tbl s' = memory_tbl s \<and> suppliers_tbl s' = suppliers_tbl s \<and>
       sent s' = sent s \<and> sends s' = sends s \<and> db_ops s' = db_ops s + 1 \<and>
       now s' = now s \<and> naps s' = naps s"
  by (auto simp: CreateQuote_def db_step_def pending_row_def Let_def split: if_splits option.splits)

lemma SendQuotes_step:
  assumes "SendQuotes E req (sp # sups) s = Some (Inr u, s')"
  shows "\<exists>s3 row msg. SendQuotes E req sups s3 = Some (Inr u, s') \<and>
           quotes_tbl s3 = quotes_tbl s @ [row] \<and>
           row_request_id row = r_ID req \<and> row_supplier_id row = s_ID sp \<and>
           row_status row = ''pending'' \<and>
           sent s3 = sent s @ [msg] \<and> sm_Phone msg = s_Phone sp \<and>
           memory_tbl s3 = memory_tbl s \<and> suppliers_tbl s3 = suppliers_tbl s \<and>
           db_ops s3 = db_ops s + 1 \<and> sends s3 = sends s + 1 \<and>
           now s3 = now s \<and> naps s3 = naps s"
proof -
  from assms obtain msg s1 where c: "composeMessage E req sp s = Some (Inr msg, s1)"
    by (auto split: option.splits sum.splits prod.splits)
  from assms c obtain u2 s2 where sd: "Send E (s_Phone sp) msg s1 = (Inr u2, s2)"
    by (auto split: option.splits sum.splits prod.splits)
  from assms c sd obtain u3 s3
    where cq: "CreateQuote E (new_quote E req sp s2) (s2\<lparr>uuid_cnt := uuid_cnt s2 + 1\<rparr>) = (Inr u3, s3)"
      and rest: "SendQuotes E req sups s3 = Some (Inr u, s')"
    by (auto split: option.splits sum.splits prod.splits)
  from composeMessage_frame [OF c] obtain r where s1: "s1 = s\<lparr>api_script := r\<rparr>" ..
  note s2 = Send_ok [OF sd]
  from CreateQuote_ok [OF cq] obtain row
    where row: "quotes_tbl s3 = quotes_tbl (s2\<lparr>uuid_cnt := uuid_cnt s2 + 1\<rparr>) @ [row]"
        "row_request_id row = q_RequestID (new_quote E req sp s2)"
        "row_supplier_id row = q_SupplierID (new_quote E req sp s2)" "row_status row = ''pending''"
        "memory_tbl s3 = memory_tbl (s2\<lparr>uuid_cnt := uuid_cnt s2 + 1\<rparr>)"
        "suppliers_tbl s3 = suppliers_tbl (s2\<lparr>uuid_cnt := uuid_cnt s2 + 1\<rparr>)"
        "sent s3 = sent (s2\<lparr>uuid_cnt := uuid_cnt s2 + 1\<rparr>)"
        "sends s3 = sends (s2\<lparr>uuid_cnt := uuid_cnt s2 + 1\<rparr>)"
        "db_ops s3 = db_ops (s2\<lparr>uuid_cnt := uuid_cnt s2 + 1\<rparr>) + 1"
        "now s3 = now (s2\<lparr>uuid_cnt := uuid_cnt s2 + 1\<rparr>)"
        "naps s3 = naps (s2\<lparr>uuid_cnt := uuid_cnt s2 + 1\<rparr>)"
    by blast
  show ?thesis
    using rest row
    by (intro exI [of _ s3] exI [of _ row]
          exI [of _ "\<lparr>sm_Phone = s_Phone sp, sm_Message = msg, sm_SentAt = now s1\<rparr>"])
       (simp add: s2 s1 new_quote_def)
qed

lemma SendQuotes_ok:
  "SendQuotes E req sups s = Some (Inr u, s') \<Longrightarrow>
     \<exists>rows. quotes_tbl s' = quotes_tbl s @ rows \<and>
       map row_supplier_id rows = map s_ID sups \<and>
       (\<forall>r \<in> set rows. row_request_id r = r_ID req \<and> row_status r = ''pending'') \<and>
       map sm_Phone (sent s') = map sm_Phone (sent s) @ map s_Phone sups \<and>
       memory_tbl s' = memory_tbl s \<and> suppliers_tbl s' = suppliers_tbl s \<and>
       db_ops s' = db_ops s + length sups \<and> sends s' = sends s + length sups \<and>
       now s' = now s \<and> naps s' = naps s"
proof (induction sups arbitrary: s)
  case Nil
  then show ?case by simp
next
  case (Cons sp sups)
  from SendQuotes_step [OF Cons.prems] obtain s3 row msg
    where rest: "SendQuotes E req sups s3 = Some (Inr u, s')"
      and st: "quotes_tbl s3 = quotes_tbl s @ [row]" "row_request_id row = r_ID req"
        "row_supplier_id row = s_ID sp" "row_status row = ''pending''"
        "sent s3 = sent s @ [msg]" "sm_Phone msg = s_Phone sp"
        "memory_tbl s3 = memory_tbl s" "suppliers_tbl s3 = suppliers_tbl s"
        "db_ops s3 = db_ops s + 1" "sends s3 = sends s + 1" "now s3 = now s" "naps s3 = naps s"
    by blast
  from Cons.IH [OF rest] obtain rows
    where ih: "quotes_tbl s' = quotes_tbl s3 @ rows" "map row_supplier_id rows = map s_ID sups"
      "\<forall>r \<in> set rows. row_request_id r = r_ID req \<and> row_status r = ''pending''"
      "map sm_Phone (sent s') = map sm_Phone (sent s3) @ map s_Phone sups"
      "memory_tbl s' = memory_tbl s3" "suppliers_tbl s' = suppliers_tbl s3"
      "db_ops s' = db_ops s3 + length sups" "sends s' = sends s3 + length sups"
      "now s' = now s3" "naps s' = naps s3"
    by blast
  show ?case
    using st ih by (intro exI [of _ "row # rows"]) simp
qed

lemma SendQuotes_append:
  "SendQuotes E req (pre @ xs) s =
     (case SendQuotes E req pre s of
        None \<Rightarrow> None
      | Some (Inl err, s1) \<Rightarrow> Some (Inl err, s1)
      | Some (Inr u, s1) \<Rightarrow> SendQuotes E req xs s1)"
  by (induction pre arbitrary: s) (auto split: option.splits sum.splits prod.splits)

lemmas ex_defs = calm_def flaky_def shop_def cement_def supplier_a_def supplier_b_def supplier_c_def
  says_def stops_def
lemmas run_defs = composeMessage_def message_executor_def Send_def CreateQuote_def db_step_def
  new_quote_def pending_row_def fallback_message_def

text \<open>
  C1. Let the suppliers before the \<open>k\<close>-th, \<open>pre\<close>, have gone through (message composed
  and sent, quote saved), leaving the state \<open>s1\<close>, and let composing the message for the
  \<open>k\<close>-th supplier \<open>sp\<close> fail, or sending it. Then \<open>SendQuotes\<close> on the whole list returns
  an error; result and final state are those of the list that ends with \<open>sp\<close>, so nothing
  was composed, sent or saved for the suppliers after it; the table of quotes holds, after
  the rows it had, exactly one pending row of this request for each supplier of \<open>pre\<close>, in
  order, and none for \<open>sp\<close>; and the messages sent are those to the suppliers of \<open>pre\<close>.
  The witness is the spec's scenario D: three suppliers, the send to the second fails.
\<close>

theorem SendQuotes_abort:
  assumes "SendQuotes E req pre s = Some (Inr (), s1)"
    and "(\<exists>err s2. composeMessage E req sp s1 = Some (Inl err, s2)) \<or>
         (\<exists>msg s2 err s3. composeMessage E req sp s1 = Some (Inr msg, s2) \<and>
            Send E (s_Phone sp) msg s2 = (Inl err, s3))"
  shows "\<exists>err s'. SendQuotes E req (pre @ sp # rest) s = Some (Inl err, s') \<and>
           SendQuotes E req (pre @ [sp]) s = Some (Inl err, s') \<and>
           (\<exists>rows. quotes_tbl s' = quotes_tbl s @ rows \<and>
              map row_supplier_id rows = map s_ID pre \<and>
              (\<forall>r \<in> set rows. row_request_id r = r_ID req \<and> row_status r = ''pending'')) \<and>
           map sm_Phone (sent s') = map sm_Phone (sent s) @ map s_Phone pre"
proof -
  from assms(2) obtain err s' where
    one: "\<And>xs. SendQuotes E req (sp # xs) s1 = Some (Inl err, s')"
    and fr: "quotes_tbl s' = quotes_tbl s1" "sent s' = sent s1"
  proof (elim disjE exE conjE)
    fix err s2 assume c: "composeMessage E req sp s1 = Some (Inl err, s2)"
    from composeMessage_frame [OF c] obtain r where "s2 = s1\<lparr>api_script := r\<rparr>" ..
    with c show thesis
      by (intro that [of "Wrap (''compose message for '' @ s_Name sp) err" s2]) simp_all
  next
    fix msg s2 err s3
    assume c: "composeMessage E req sp s1 = Some (Inr msg, s2)"
      and sd: "Send E (s_Phone sp) msg s2 = (Inl err, s3)"
    from composeMessage_frame [OF c] obtain r where "s2 = s1\<lparr>api_script := r\<rparr>" ..
    with c sd Send_fails [OF sd] show thesis
      by (intro that [of "Wrap (''send to '' @ s_Name sp) err" s3]) simp_all
  qed
  from SendQuotes_ok [OF assms(1)] obtain rows
    where ok: "quotes_tbl s1 = quotes_tbl s @ rows" "map row_supplier_id rows = map s_ID pre"
      "\<forall>r \<in> set rows. row_request_id r = r_ID req \<and> row_status r = ''pending''"
      "map sm_Phone (sent s1) = map sm_Phone (sent s) @ map s_Phone pre"
    by blast
  show ?thesis
    using assms(1) one ok fr
    by (intro exI [of _ err] exI [of _ s']) (simp add: SendQuotes_append)
qed

theorem SendQuotes_abort_witness:
  "\<exists>err s'. SendQuotes flaky cement [supplier_a, supplier_b, supplier_c]
               (shop [stops, stops, stops]) = Some (Inl err, s') \<and>
     map row_supplier_id (quotes_tbl s') = [''a''] \<and>
     map sm_Phone (sent s') = [''5567999990001'']"
proof -
  have "\<exists>s1. SendQuotes flaky cement [supplier_a] (shop [stops, stops, stops]) = Some (Inr (), s1) \<and>
          ((\<exists>err s2. composeMessage flaky cement supplier_b s1 = Some (Inl err, s2)) \<or>
           (\<exists>msg s2 err s3. composeMessage flaky cement supplier_b s1 = Some (Inr msg, s2) \<and>
              Send flaky (s_Phone supplier_b) msg s2 = (Inl err, s3)))"
    by (simp add: ex_defs run_defs)
  then obtain s1
    where "SendQuotes flaky cement [supplier_a] (shop [stops, stops, stops]) = Some (Inr (), s1)"
      and "(\<exists>err s2. composeMessage flaky cement supplier_b s1 = Some (Inl err, s2)) \<or>
           (\<exists>msg s2 err s3. composeMessage flaky cement supplier_b s1 = Some (Inr msg, s2) \<and>
              Send flaky (s_Phone supplier_b) msg s2 = (Inl err, s3))"
    by blast
  from SendQuotes_abort [OF this, of "[supplier_c]"] obtain err s' rows
    where r: "SendQuotes flaky cement ([supplier_a] @ supplier_b # [supplier_c])
                (shop [stops, stops, stops]) = Some (Inl err, s')"
      "quotes_tbl s' = quotes_tbl (shop [stops, stops, stops]) @ rows"
      "map row_supplier_id rows = map s_ID [supplier_a]"
      "map sm_Phone (sent s') = map sm_Phone (sent (shop [stops, stops, stops]))
          @ map s_Phone [supplier_a]"
    by blast
  have q: "map row_supplier_id (quotes_tbl s') = [''a'']"
    using r(2,3) by (simp add: shop_def supplier_a_def)
  have m: "map sm_Phone (sent s') = [''5567999990001'']"
    using r(4) by (simp add: shop_def supplier_a_def)
  show ?thesis
    by (intro exI [of _ err] exI [of _ s'] conjI q m r(1) [unfolded append_Cons append_Nil])
qed

text \<open>
  C2. If \<open>SendQuotes\<close> succeeds on suppliers with pairwise distinct identifiers, the table
  of quotes holds, after the rows it had, exactly one new row for each supplier, in order:
  each has the status \<^verbatim>\<open>pending\<close>, the identifier of the request and the identifier of
  its supplier, and no two of the new rows have the same pair of request and supplier.
\<close>

theorem SendQuotes_creates:
  assumes "SendQuotes E req sups s = Some (Inr (), s')" and "distinct (map s_ID sups)"
  shows "\<exists>rows. quotes_tbl s' = quotes_tbl s @ rows \<and> length rows = length sups \<and>
           (\<forall>r \<in> set rows. row_status r = ''pending'' \<and> row_request_id r = r_ID req) \<and>
           map row_supplier_id rows = map s_ID sups \<and>
           distinct (map (\<lambda>r. (row_request_id r, row_supplier_id r)) rows)"
proof -
  from SendQuotes_ok [OF assms(1)] obtain rows
    where ok: "quotes_tbl s' = quotes_tbl s @ rows" "map row_supplier_id rows = map s_ID sups"
      "\<forall>r \<in> set rows. row_request_id r = r_ID req \<and> row_status r = ''pending''"
    by blast
  from ok(2) have len: "length rows = length sups"
    by (metis length_map)
  from ok(2) assms(2) have "distinct (map row_supplier_id rows)" by simp
  then have "distinct (map (\<lambda>r. (row_request_id r, row_supplier_id r)) rows)"
    by (simp add: distinct_map inj_on_def)
  with ok len show ?thesis by blast
qed


theorem SendQuotes_creates_witness:
  "\<exists>s'. SendQuotes calm cement [supplier_a, supplier_b, supplier_c]
               (shop [stops, stops, stops]) = Some (Inr (), s') \<and>
     length (quotes_tbl s') = 3 \<and>
     map row_status (quotes_tbl s') = [''pending'', ''pending'', ''pending''] \<and>
     distinct (map (\<lambda>r. (row_request_id r, row_supplier_id r)) (quotes_tbl s'))"
proof -
  have "\<exists>s'. SendQuotes calm cement [supplier_a, supplier_b, supplier_c]
               (shop [stops, stops, stops]) = Some (Inr (), s')"
    by (simp add: ex_defs run_defs)
  then obtain s' where run: "SendQuotes calm cement [supplier_a, supplier_b, supplier_c]
               (shop [stops, stops, stops]) = Some (Inr (), s')" ..
  have "distinct (map s_ID [supplier_a, supplier_b, supplier_c])"
    by (simp add: ex_defs)
  from SendQuotes_creates [OF run this] obtain rows
    where "quotes_tbl s' = quotes_tbl (shop [stops, stops, stops]) @ rows" "length rows = 3"
      "\<forall>r \<in> set rows. row_status r = ''pending'' \<and> row_request_id r = r_ID cement"
      "distinct (map (\<lambda>r. (row_request_id r, row_supplier_id r)) rows)"
    by auto
  then have "length (quotes_tbl s') = 3 \<and>
     map row_status (quotes_tbl s') = [''pending'', ''pending'', ''pending''] \<and>
     distinct (map (\<lambda>r. (row_request_id r, row_supplier_id r)) (quotes_tbl s'))"
    by (auto simp: shop_def length_Suc_conv numeral_3_eq_3)
  then show ?thesis
    by (intro exI [of _ s'] conjI run) simp_all
qed


subsection \<open>Dry run\<close>

lemma ParseRequest_frame:
  "ParseRequest E description s = Some (res, s') \<Longrightarrow>
     quotes_tbl s' = quotes_tbl s \<and> memory_tbl s' = memory_tbl s \<and>
     suppliers_tbl s' = suppliers_tbl s \<and> db_ops s' = db_ops s \<and>
     now s' = now s \<and> naps s' = naps s \<and> sent s' = sent s"
  by (auto simp: ParseRequest_def split: option.splits sum.splits prod.splits)

lemma Match_frame:
  "Match E items city s = Some (res, s') \<Longrightarrow>
     quotes_tbl s' = quotes_tbl s \<and> memory_tbl s' = memory_tbl s \<and>
     suppliers_tbl s' = suppliers_tbl s \<and> db_ops s' = db_ops s + 1 \<and>
     now s' = now s \<and> naps s' = naps s \<and> sent s' = sent s"
  by (auto simp: Match_def List_active_def db_step_def
      split: option.splits sum.splits prod.splits if_splits)

text \<open>
  C10. Let \<open>DryRun\<close> be set, and let the request be parsed, at least one supplier be
  matched and the dispatch succeed, leaving the state \<open>s3\<close>. Then \<open>Quote\<close> returns success
  with the state \<open>s3\<close> itself: nothing is read, asked of the endpoint or written after the
  dispatch. Compared with the state before the call, the purchase memory and the directory
  are unchanged, no sleep was taken and the clock has not moved, the database has run one
  statement for the directory listing and one for each quote inserted (so none that reads
  the quotes), and the table of quotes has gained one pending row of the request for each
  matched supplier. \<open>DryRun\<close> is set in \<open>DefaultConfig\<close>.
\<close>

theorem Quote_dry_run:
  assumes "DryRun cfg"
    and "ParseRequest E description s = Some (Inr req0, s1)"
    and "Match E (map pi_Name (r_Items req0)) (City cfg) s1 = Some (Inr sups, s2)"
    and "sups \<noteq> []"
    and "SendQuotes E (req0\<lparr>r_Urgent := urgent, r_Timeout := quote_timeout cfg urgent\<rparr>)
           (map m_Supplier sups) s2 = Some (Inr (), s3)"
  shows "Quote E cfg description urgent s = Some (Inr (), s3) \<and>
         (\<exists>rows. quotes_tbl s3 = quotes_tbl s @ rows \<and> length rows = length sups \<and>
            (\<forall>r \<in> set rows. row_status r = ''pending'' \<and> row_request_id r = r_ID req0)) \<and>
         memory_tbl s3 = memory_tbl s \<and> suppliers_tbl s3 = suppliers_tbl s \<and>
         db_ops s3 = db_ops s + 1 + length sups \<and> naps s3 = naps s \<and> now s3 = now s \<and>
         DryRun DefaultConfig"
proof -
  have run: "Quote E cfg description urgent s = Some (Inr (), s3)"
    using assms by (simp add: Quote_def Let_def)
  note p = ParseRequest_frame [OF assms(2)]
  note m = Match_frame [OF assms(3)]
  from SendQuotes_ok [OF assms(5)] obtain rows
    where ok: "quotes_tbl s3 = quotes_tbl s2 @ rows"
      "map row_supplier_id rows = map s_ID (map m_Supplier sups)"
      "\<forall>r \<in> set rows. row_request_id r =
          r_ID (req0\<lparr>r_Urgent := urgent, r_Timeout := quote_timeout cfg urgent\<rparr>) \<and>
          row_status r = ''pending''"
      "memory_tbl s3 = memory_tbl s2" "suppliers_tbl s3 = suppliers_tbl s2"
      "db_ops s3 = db_ops s2 + length (map m_Supplier sups)" "now s3 = now s2" "naps s3 = naps s2"
    by blast
  from ok(2) have len: "length rows = length sups"
    by (metis length_map)
  have rows: "\<exists>rows. quotes_tbl s3 = quotes_tbl s @ rows \<and> length rows = length sups \<and>
            (\<forall>r \<in> set rows. row_status r = ''pending'' \<and> row_request_id r = r_ID req0)"
    using ok(1,3) len p m by (intro exI [of _ rows]) simp
  show ?thesis
    using run rows ok p m by (simp add: DefaultConfig_def)
qed

theorem Quote_dry_run_witness:
  "\<exists>s3. Quote calm DefaultConfig ''cimento'' False (shop dry_script) = Some (Inr (), s3) \<and>
     length (quotes_tbl s3) = 2 \<and> memory_tbl s3 = [] \<and> db_ops s3 = 3 \<and> naps s3 = 0"
proof -
  have "\<exists>req0 s1 sups s2 s3.
          ParseRequest calm ''cimento'' (shop dry_script) = Some (Inr req0, s1) \<and>
          Match calm (map pi_Name (r_Items req0)) (City DefaultConfig) s1 = Some (Inr sups, s2) \<and>
          sups \<noteq> [] \<and> length sups = 2 \<and>
          SendQuotes calm (req0\<lparr>r_Urgent := False,
               r_Timeout := quote_timeout DefaultConfig False\<rparr>) (map m_Supplier sups) s2 =
            Some (Inr (), s3)"
    by (simp add: ex_defs run_defs dry_script_def ParseRequest_def items_executor_def Match_def
        List_active_def match_executor_def supIndex_def DefaultConfig_def)
  then obtain req0 s1 sups s2 s3
    where h: "ParseRequest calm ''cimento'' (shop dry_script) = Some (Inr req0, s1)"
      "Match calm (map pi_Name (r_Items req0)) (City DefaultConfig) s1 = Some (Inr sups, s2)"
      "sups \<noteq> []"
      "SendQuotes calm (req0\<lparr>r_Urgent := False,
           r_Timeout := quote_timeout DefaultConfig False\<rparr>) (map m_Supplier sups) s2 =
         Some (Inr (), s3)"
      and two: "length sups = 2"
    by blast
  have d: "DryRun DefaultConfig" by (simp add: DefaultConfig_def)
  from Quote_dry_run [OF d h] two
  have "Quote calm DefaultConfig ''cimento'' False (shop dry_script) = Some (Inr (), s3)"
    and "length (quotes_tbl s3) = 2" and "memory_tbl s3 = []" and "db_ops s3 = 3" and "naps s3 = 0"
    by (auto simp: shop_def)
  then show ?thesis
    by (intro exI [of _ s3] conjI)
qed


subsection \<open>The wait\<close>

declare wait_loop.simps [simp del]





lemma poll_at_naps: "naps (poll_at E k s) = naps s + k"
  by (induction k arbitrary: s) (simp_all add: poll_round_def)












subsection \<open>Urgent mode\<close>









subsection \<open>Decision step on a degenerate answer\<close>

lemma ChatWithTools_script:
  assumes "\<forall>a \<in> set pre. keeps_calling a" and "ends_chat fin"
  shows "\<exists>txt. ChatWithTools executor r (pre @ fin # rest) =
           Some (Inr txt, foldl (\<lambda>r a. run_tools executor (calls_of a) r) r pre, rest)"
  using assms(1)
proof (induction pre arbitrary: r)
  case Nil
  from assms(2) show ?case
    by (cases fin) (auto simp: ends_chat_def split: list.splits)
next
  case (Cons a pre)
  then have k: "keeps_calling a" and rest: "\<forall>a \<in> set pre. keeps_calling a" by simp_all
  from k obtain c cs where a: "a = ApiResponse (c # cs)"
    and c: "\<not> (finish_reason c = ''stop'' \<or> tool_calls c = [])"
    by (cases a) (auto simp: keeps_calling_def split: list.splits)
  from Cons.IH [OF rest, of "run_tools executor (tool_calls c) r"] c
  show ?case by (simp add: a calls_of_def)
qed

lemma run_tools_malformed:
  "\<forall>tc \<in> set tcs. isl (unmarshal_comparison E (tc_arguments tc)) \<Longrightarrow>
     run_tools (compare_executor E) tcs r = r"
  by (induction tcs arbitrary: r) (auto simp: compare_executor_def split: sum.splits)

lemma foldl_malformed:
  "\<forall>a \<in> set pre. \<forall>tc \<in> set (calls_of a). isl (unmarshal_comparison E (tc_arguments tc)) \<Longrightarrow>
     foldl (\<lambda>r a. run_tools (compare_executor E) (calls_of a) r) r pre = r"
  by (induction pre arbitrary: r) (simp_all add: run_tools_malformed)

text \<open>
  C8, as amended. Let the list of received quotes be non-empty, and let the endpoint answer
  with responses that each carry at least one choice: first those that make the
  conversation go on (\<open>pre\<close>), then one that ends it (\<open>fin\<close>). Then \<open>CompareQuotes\<close>
  returns a record without error, and has taken exactly those answers. If the comparison
  tool was never called (\<open>pre\<close> is empty) or none of its inputs could be parsed, the record
  is the zero record.
\<close>

theorem CompareQuotes_degenerate:
  assumes "quotes \<noteq> []" and "api_script s = pre @ fin # rest"
    and "\<forall>a \<in> set pre. keeps_calling a" and "ends_chat fin"
  shows "\<exists>result. CompareQuotes E req quotes s = Some (Inr result, s\<lparr>api_script := rest\<rparr>) \<and>
           ((\<forall>a \<in> set pre. \<forall>tc \<in> set (calls_of a).
               isl (unmarshal_comparison E (tc_arguments tc))) \<longrightarrow> result = zero_comparison)"
proof -
  from ChatWithTools_script [OF assms(3,4), of "compare_executor E" zero_comparison rest]
  obtain reply where "ChatWithTools (compare_executor E) zero_comparison (api_script s) =
      Some (Inr reply, foldl (\<lambda>r a. run_tools (compare_executor E) (calls_of a) r) zero_comparison pre,
            rest)"
    by (auto simp: assms(2))
  with assms(1) have "CompareQuotes E req quotes s =
      Some (Inr (foldl (\<lambda>r a. run_tools (compare_executor E) (calls_of a) r) zero_comparison pre),
            s\<lparr>api_script := rest\<rparr>)"
    by (simp add: CompareQuotes_def)
  then show ?thesis
    by (auto simp: foldl_malformed)
qed

theorem CompareQuotes_degenerate_witness:
  "CompareQuotes calm cement [quote_a] (shop [says ''compare_quotes'' [], stops]) =
     Some (Inr zero_comparison, shop [])"
proof -
  have "\<forall>a \<in> set [says ''compare_quotes'' []]. keeps_calling a"
    by (simp add: says_def keeps_calling_def)
  moreover have "ends_chat stops"
    by (simp add: stops_def ends_chat_def)
  moreover have "\<forall>a \<in> set [says ''compare_quotes'' []]. \<forall>tc \<in> set (calls_of a).
      isl (unmarshal_comparison calm (tc_arguments tc))"
    by (simp add: says_def calls_of_def calm_def)
  moreover have "api_script (shop [says ''compare_quotes'' [], stops]) =
      [says ''compare_quotes'' []] @ stops # []"
    by (simp add: shop_def)
  ultimately show ?thesis
    using CompareQuotes_degenerate [of "[quote_a]" "shop [says ''compare_quotes'' [], stops]"
        "[says ''compare_quotes'' []]" stops "[]" calm cement]
    by (auto simp: shop_def)
qed

text \<open>
  C8 as the spec has it fails when the endpoint answers, without any failure of the
  transport, with a response that has no choice: \<open>ChatWithTools\<close> makes that empty result
  the error \<^verbatim>\<open>empty response\<close>, and \<open>CompareQuotes\<close> returns it wrapped.
\<close>

theorem CompareQuotes_no_choice_counterexample:
  "CompareQuotes calm cement [quote_a] (shop [ApiResponse []]) =
     Some (Inl (Wrap ''compare quotes'' (Error ''empty response'')), shop [])"
  by (simp add: CompareQuotes_def quote_a_def shop_def)

subsection \<open>Inbound messages of known senders\<close>







end
